theory Spec2Isabelle
  imports Complex_Main
begin

section \<open>The cart aggregate (src/models/cart.model.js)\<close>

text \<open>
  The cart model is a Mongoose schema with instance methods that mutate the document in
  place and static methods that fetch the user's cart, apply one instance method and save.
  The embedding makes the document a record and every method a function from the old
  document to the new one.

  \<^item> A JavaScript \<^verbatim>\<open>Number\<close> is modelled as a \<^typ>\<open>real\<close>: the arithmetic of the
    methods (\<^verbatim>\<open>+\<close>, \<^verbatim>\<open>-\<close>, \<^verbatim>\<open>*\<close>, \<^verbatim>\<open><=\<close>) is exact here; rounding,
    \<^verbatim>\<open>NaN\<close> and the infinities of IEEE doubles are outside the model.
  \<^item> An \<^verbatim>\<open>ObjectId\<close> is modelled by the string its \<^verbatim>\<open>toString()\<close> returns: 24
    hexadecimal digits in lower case. The methods look at a stored id only through
    \<^verbatim>\<open>toString()\<close>.
  \<^item> An id a caller passes is the caller's string, as the request carries it: 24
    hexadecimal digits in either case (a string that is no ObjectId is refused by the
    schema's type and is not an input here). It is not the same string as the stored id
    when it has an upper-case digit.
  \<^item> The \<^verbatim>\<open>_id\<close> and the timestamps Mongoose adds to every document are left out: no
    method reads them.
\<close>

type_synonym objectId = string

text \<open>
  The cast of a caller's string to an \<^verbatim>\<open>ObjectId\<close>, read back with \<^verbatim>\<open>toString()\<close>:
  the same hexadecimal digits in lower case. The schema applies it to \<^verbatim>\<open>productId\<close>
  (type \<^verbatim>\<open>ObjectId\<close>) when a line is pushed onto \<^verbatim>\<open>items\<close>.
\<close>

definition lowerHex :: "char \<Rightarrow> char" where
  "lowerHex ch =
     (if ch = CHR ''A'' then CHR ''a''
      else if ch = CHR ''B'' then CHR ''b''
      else if ch = CHR ''C'' then CHR ''c''
      else if ch = CHR ''D'' then CHR ''d''
      else if ch = CHR ''E'' then CHR ''e''
      else if ch = CHR ''F'' then CHR ''f''
      else ch)"

definition castObjectId :: "string \<Rightarrow> objectId" where
  "castObjectId s = map lowerHex s"

text \<open>
  \<^verbatim>\<open>cartItemSchema\<close>: one line of the cart. The schema's field \<^verbatim>\<open>image\<close> is
  \<open>image'\<close> here, since \<open>image\<close> is HOL's image of a set under a function.
\<close>

record cartItem =
  productId :: objectId
  name :: string
  price :: real
  quantity :: real
  image' :: string
  category :: string

text \<open>
  \<^verbatim>\<open>cartSchema\<close>: the cart document of one user. The user's id is cast wherever the
  model uses it (in the filter of \<^verbatim>\<open>findOne\<close> and in the constructor), so \<open>userId\<close>
  and every user id below is the id after the cast.
\<close>

record cart =
  userId :: objectId
  items :: "cartItem list"
  totalAmount :: real
  totalItems :: real

text \<open>
  The argument of \<^verbatim>\<open>addProduct\<close>: \<^verbatim>\<open>{ productId, name, price, image, category }\<close>.
  \<^verbatim>\<open>productId\<close> is the caller's string. \<^verbatim>\<open>image\<close> and \<^verbatim>\<open>category\<close> may be
  missing (\<^verbatim>\<open>undefined\<close>), which is \<open>None\<close> here.
\<close>

record productData =
  pd_productId :: string
  pd_name :: string
  pd_price :: real
  pd_image :: "string option"
  pd_category :: "string option"

text \<open>\<^verbatim>\<open>x || ''\<close> on an optional string: a missing and an empty string both give \<^verbatim>\<open>''\<close>.\<close>

fun orEmpty :: "string option \<Rightarrow> string" where
  "orEmpty None = []"
| "orEmpty (Some s) = s"

subsection \<open>Instance methods\<close>

text \<open>
  \<^verbatim>\<open>calculateTotals\<close>: both totals are \<^verbatim>\<open>reduce\<close> with the initial value 0, a fold
  from the left.
\<close>

definition calculateTotals :: "cart \<Rightarrow> cart" where
  "calculateTotals c =
     c\<lparr>totalAmount := foldl (\<lambda>total item. total + price item * quantity item) 0 (items c),
       totalItems := foldl (\<lambda>total item. total + quantity item) 0 (items c)\<rparr>"

text \<open>
  \<^verbatim>\<open>this.items.find(item => item.productId.toString() === productId.toString())\<close>:
  the first line whose stored id, as a string, is the caller's string, or
  \<^verbatim>\<open>undefined\<close>. The caller's string is compared as it is, not cast.
\<close>

definition findItem :: "string \<Rightarrow> cartItem list \<Rightarrow> cartItem option" where
  "findItem pid its = find (\<lambda>item. productId item = pid) its"

text \<open>
  \<^verbatim>\<open>find\<close> returns the array's element itself, so an assignment to a field of the
  found item writes through to the array: the first line of the product is replaced by
  the changed one, every other line stays where it is.
\<close>

fun updateFound :: "string \<Rightarrow> (cartItem \<Rightarrow> cartItem) \<Rightarrow> cartItem list \<Rightarrow> cartItem list" where
  "updateFound pid f [] = []"
| "updateFound pid f (item # rest) =
     (if productId item = pid then f item # rest else item # updateFound pid f rest)"

text \<open>
  \<^verbatim>\<open>addProduct\<close>. The line pushed onto \<^verbatim>\<open>items\<close> is cast by the item schema, so
  its \<open>productId\<close> is the cast of the caller's string.
\<close>

definition addProduct :: "productData \<Rightarrow> cart \<Rightarrow> cart" where
  "addProduct productData c =
     calculateTotals
       (case findItem (pd_productId productData) (items c) of
          Some existingItem \<Rightarrow>
            c\<lparr>items := updateFound (pd_productId productData)
                          (\<lambda>item. item\<lparr>quantity := quantity item + 1\<rparr>) (items c)\<rparr>
        | None \<Rightarrow>
            c\<lparr>items := items c @
                 [\<lparr>productId = castObjectId (pd_productId productData),
                   name = pd_name productData,
                   price = pd_price productData,
                   quantity = 1,
                   image' = orEmpty (pd_image productData),
                   category = orEmpty (pd_category productData)\<rparr>]\<rparr>)"

definition removeProduct :: "string \<Rightarrow> cart \<Rightarrow> cart" where
  "removeProduct pid c =
     calculateTotals (c\<lparr>items := filter (\<lambda>item. productId item \<noteq> pid) (items c)\<rparr>)"

definition updateQuantity :: "string \<Rightarrow> real \<Rightarrow> cart \<Rightarrow> cart" where
  "updateQuantity pid qty c =
     (if qty \<le> 0 then removeProduct pid c
      else case findItem pid (items c) of
             Some item \<Rightarrow>
               calculateTotals
                 (c\<lparr>items := updateFound pid (\<lambda>item. item\<lparr>quantity := qty\<rparr>) (items c)\<rparr>)
           | None \<Rightarrow> c)"

definition increaseQuantity :: "string \<Rightarrow> cart \<Rightarrow> cart" where
  "increaseQuantity pid c =
     (case findItem pid (items c) of
        Some item \<Rightarrow>
          calculateTotals
            (c\<lparr>items := updateFound pid (\<lambda>item. item\<lparr>quantity := quantity item + 1\<rparr>) (items c)\<rparr>)
      | None \<Rightarrow> c)"

text \<open>
  \<^verbatim>\<open>decreaseQuantity\<close> first writes the decremented quantity into the found line and
  then, when it is not positive any more, calls \<^verbatim>\<open>removeProduct\<close> on the cart so
  changed.
\<close>

definition decreaseQuantity :: "string \<Rightarrow> cart \<Rightarrow> cart" where
  "decreaseQuantity pid c =
     (case findItem pid (items c) of
        Some item \<Rightarrow>
          (let c1 = c\<lparr>items := updateFound pid (\<lambda>item. item\<lparr>quantity := quantity item - 1\<rparr>) (items c)\<rparr>
           in if quantity item - 1 \<le> 0 then removeProduct pid c1 else calculateTotals c1)
      | None \<Rightarrow> c)"

definition clearCart :: "cart \<Rightarrow> cart" where
  "clearCart c = c\<lparr>items := [], totalAmount := 0, totalItems := 0\<rparr>"

definition isEmpty :: "cart \<Rightarrow> bool" where
  "isEmpty c = (length (items c) = 0)"

text \<open>
  The six mutating instance methods as one type of operations, and the method each one
  names.
\<close>

datatype mutation =
    AddProduct productData
  | RemoveProduct string
  | UpdateQuantity string real
  | IncreaseQuantity string
  | DecreaseQuantity string
  | ClearCart

fun mutate :: "mutation \<Rightarrow> cart \<Rightarrow> cart" where
  "mutate (AddProduct productData) c = addProduct productData c"
| "mutate (RemoveProduct pid) c = removeProduct pid c"
| "mutate (UpdateQuantity pid qty) c = updateQuantity pid qty c"
| "mutate (IncreaseQuantity pid) c = increaseQuantity pid c"
| "mutate (DecreaseQuantity pid) c = decreaseQuantity pid c"
| "mutate ClearCart c = clearCart c"

subsection \<open>Saving and the schema's validators\<close>

text \<open>
  The collection of carts is a map from the user's id to the user's cart document: the
  schema declares \<^verbatim>\<open>userId\<close> unique, and every query of the model is
  \<^verbatim>\<open>findOne({ userId })\<close>. The methods run one after the other (no interleaving of
  two requests), and the database itself does not fail.

  \<^verbatim>\<open>save()\<close> rejects a document that does not pass the validators the two schemas
  declare, and stores nothing then. The validators are: on a line, \<^verbatim>\<open>name\<close>
  required (Mongoose's \<^verbatim>\<open>required\<close> refuses the empty string), \<^verbatim>\<open>price\<close> with
  \<^verbatim>\<open>min: 0\<close> and \<^verbatim>\<open>quantity\<close> with \<^verbatim>\<open>min: 1\<close>; on the cart, \<^verbatim>\<open>totalAmount\<close>
  and \<^verbatim>\<open>totalItems\<close> with \<^verbatim>\<open>min: 0\<close>. The fields that are required and always
  there in a record (\<^verbatim>\<open>productId\<close>, \<^verbatim>\<open>price\<close>, \<^verbatim>\<open>quantity\<close>, \<^verbatim>\<open>userId\<close>) need
  no test. The whole document is validated.
\<close>

datatype error = ValidationError

definition validItem :: "cartItem \<Rightarrow> bool" where
  "validItem item = (name item \<noteq> [] \<and> 0 \<le> price item \<and> 1 \<le> quantity item)"

definition validCart :: "cart \<Rightarrow> bool" where
  "validCart c = (list_all validItem (items c) \<and> 0 \<le> totalAmount c \<and> 0 \<le> totalItems c)"

text \<open>
  \<^verbatim>\<open>save\<close>: Mongoose validates first (its own pre-save hook comes before the
  schema's), then runs the \<^verbatim>\<open>pre('save')\<close> hook of the schema, which calls
  \<^verbatim>\<open>calculateTotals\<close>, then stores the document and resolves to it. A rejected save
  is \<open>Inl\<close> and leaves the collection as it was.
\<close>

type_synonym store = "objectId \<rightharpoonup> cart"

definition save :: "cart \<Rightarrow> store \<Rightarrow> (error + cart) \<times> store" where
  "save c db =
     (if validCart c
      then (let c' = calculateTotals c in (Inr c', db(userId c' \<mapsto> c')))
      else (Inl ValidationError, db))"

subsection \<open>Static methods\<close>

text \<open>
  Every static mutator is \<^verbatim>\<open>try { ... } catch (error) { console.error(...); throw error }\<close>:
  an error of \<^verbatim>\<open>getOrCreateCart\<close> or of \<^verbatim>\<open>save\<close> is passed on to the caller, with
  the collection as it is at that moment.
\<close>

definition findOne :: "objectId \<Rightarrow> store \<Rightarrow> cart option" where
  "findOne uid db = db uid"

text \<open>
  \<^verbatim>\<open>getUserCart\<close> is \<^verbatim>\<open>findOne\<close> with the product references populated, which
  does not change whether a cart is found.
\<close>

definition getUserCart :: "objectId \<Rightarrow> store \<Rightarrow> cart option" where
  "getUserCart uid db = findOne uid db"

definition getOrCreateCart :: "objectId \<Rightarrow> store \<Rightarrow> (error + cart) \<times> store" where
  "getOrCreateCart uid db =
     (case findOne uid db of
        Some c \<Rightarrow> (Inr c, db)
      | None \<Rightarrow> save \<lparr>userId = uid, items = [], totalAmount = 0, totalItems = 0\<rparr> db)"

definition addProductToCart ::
  "objectId \<Rightarrow> productData \<Rightarrow> store \<Rightarrow> (error + cart) \<times> store" where
  "addProductToCart uid productData db =
     (case getOrCreateCart uid db of
        (Inl e, db1) \<Rightarrow> (Inl e, db1)
      | (Inr c, db1) \<Rightarrow> save (addProduct productData c) db1)"

definition removeProductFromCart ::
  "objectId \<Rightarrow> string \<Rightarrow> store \<Rightarrow> (error + cart) \<times> store" where
  "removeProductFromCart uid pid db =
     (case getOrCreateCart uid db of
        (Inl e, db1) \<Rightarrow> (Inl e, db1)
      | (Inr c, db1) \<Rightarrow> save (removeProduct pid c) db1)"

definition updateProductQuantity ::
  "objectId \<Rightarrow> string \<Rightarrow> real \<Rightarrow> store \<Rightarrow> (error + cart) \<times> store" where
  "updateProductQuantity uid pid qty db =
     (case getOrCreateCart uid db of
        (Inl e, db1) \<Rightarrow> (Inl e, db1)
      | (Inr c, db1) \<Rightarrow> save (updateQuantity pid qty c) db1)"

definition increaseProductQuantity ::
  "objectId \<Rightarrow> string \<Rightarrow> store \<Rightarrow> (error + cart) \<times> store" where
  "increaseProductQuantity uid pid db =
     (case getOrCreateCart uid db of
        (Inl e, db1) \<Rightarrow> (Inl e, db1)
      | (Inr c, db1) \<Rightarrow> save (increaseQuantity pid c) db1)"

definition decreaseProductQuantity ::
  "objectId \<Rightarrow> string \<Rightarrow> store \<Rightarrow> (error + cart) \<times> store" where
  "decreaseProductQuantity uid pid db =
     (case getOrCreateCart uid db of
        (Inl e, db1) \<Rightarrow> (Inl e, db1)
      | (Inr c, db1) \<Rightarrow> save (decreaseQuantity pid c) db1)"

definition clearUserCart :: "objectId \<Rightarrow> store \<Rightarrow> (error + cart) \<times> store" where
  "clearUserCart uid db =
     (case getOrCreateCart uid db of
        (Inl e, db1) \<Rightarrow> (Inl e, db1)
      | (Inr c, db1) \<Rightarrow> save (clearCart c) db1)"

text \<open>The static method that applies each mutation to a user's cart and saves it.\<close>

fun mutateUserCart :: "objectId \<Rightarrow> mutation \<Rightarrow> store \<Rightarrow> (error + cart) \<times> store" where
  "mutateUserCart uid (AddProduct productData) db = addProductToCart uid productData db"
| "mutateUserCart uid (RemoveProduct pid) db = removeProductFromCart uid pid db"
| "mutateUserCart uid (UpdateQuantity pid qty) db = updateProductQuantity uid pid qty db"
| "mutateUserCart uid (IncreaseQuantity pid) db = increaseProductQuantity uid pid db"
| "mutateUserCart uid (DecreaseQuantity pid) db = decreaseProductQuantity uid pid db"
| "mutateUserCart uid ClearCart db = clearUserCart uid db"

subsection \<open>Route handlers (the cart routes)\<close>

text \<open>
  A handler takes the request's fields and the collection and gives the response and the
  collection after it. Of the JSON envelope the model keeps the HTTP status, the
  \<^verbatim>\<open>success\<close> flag, the message and the cart in \<^verbatim>\<open>data\<close> (\<open>None\<close> for
  \<^verbatim>\<open>data: null\<close> and for no \<^verbatim>\<open>data\<close>). A field missing from the request is
  \<open>None\<close>; \<^verbatim>\<open>!x\<close> holds of a missing and of an empty string. An error thrown inside
  \<^verbatim>\<open>try\<close> is answered by the \<^verbatim>\<open>catch\<close> branch with the status 500.
\<close>

record response =
  status :: nat
  success :: bool
  message :: string
  cartData :: "cart option"

text \<open>\<^verbatim>\<open>POST /api/cart/create\<close>\<close>

definition createCartRoute :: "objectId option \<Rightarrow> store \<Rightarrow> response \<times> store" where
  "createCartRoute body_userId db =
     (case body_userId of
        None \<Rightarrow>
          (\<lparr>status = 400, success = False, message = ''userId is required'', cartData = None\<rparr>, db)
      | Some uid \<Rightarrow>
          if uid = [] then
            (\<lparr>status = 400, success = False, message = ''userId is required'', cartData = None\<rparr>, db)
          else
            (case getUserCart uid db of
               Some existingCart \<Rightarrow>
                 (\<lparr>status = 409, success = False,
                   message = ''Cart already exists for this user'',
                   cartData = Some existingCart\<rparr>, db)
             | None \<Rightarrow>
                 (case getOrCreateCart uid db of
                    (Inr c, db1) \<Rightarrow>
                      (\<lparr>status = 201, success = True,
                        message = ''Cart created successfully'',
                        cartData = Some c\<rparr>, db1)
                  | (Inl e, db1) \<Rightarrow>
                      (\<lparr>status = 500, success = False,
                        message = ''Internal server error'', cartData = None\<rparr>, db1))))"


section \<open>Vocabulary of the properties\<close>

text \<open>
  The predicates below are not code of the repository: they name the conditions the
  properties of the cart speak about. \<open>isInteger\<close> is what JavaScript's
  \<^verbatim>\<open>Number.isInteger\<close> tests, \<open>quantitiesValid\<close> is the data model's condition
  on a line's quantity (an integer, at least 1), \<open>quantitiesPositive\<close> its weaker half
  (no line with a quantity of 0 or less), and \<open>integerInput\<close> says that the one
  quantity a mutation takes from its caller, the argument of \<^verbatim>\<open>updateQuantity\<close>, is
  an integer.
\<close>

definition isInteger :: "real \<Rightarrow> bool" where
  "isInteger x = (of_int \<lfloor>x\<rfloor> = x)"

definition quantitiesValid :: "cart \<Rightarrow> bool" where
  "quantitiesValid c =
     list_all (\<lambda>item. isInteger (quantity item) \<and> 1 \<le> quantity item) (items c)"

definition quantitiesPositive :: "cart \<Rightarrow> bool" where
  "quantitiesPositive c = list_all (\<lambda>item. 0 < quantity item) (items c)"

fun integerInput :: "mutation \<Rightarrow> bool" where
  "integerInput (UpdateQuantity pid qty) = isInteger qty"
| "integerInput m = True"

text \<open>
  Example data: a user, two products with their ids as stored, their lines, and carts of
  the user. \<open>penUpper\<close> is the pen with its id written in upper case, as a request may
  carry it: the same \<^verbatim>\<open>ObjectId\<close>.
\<close>

abbreviation userA :: objectId where
  "userA \<equiv> ''aaaaaaaaaaaaaaaaaaaaaaa1''"

abbreviation penId :: objectId where
  "penId \<equiv> ''bbbbbbbbbbbbbbbbbbbbbbb1''"

abbreviation inkId :: objectId where
  "inkId \<equiv> ''bbbbbbbbbbbbbbbbbbbbbbb2''"

abbreviation pen :: productData where
  "pen \<equiv> \<lparr>pd_productId = penId, pd_name = ''Pen'', pd_price = 500,
           pd_image = None, pd_category = None\<rparr>"

abbreviation penUpper :: productData where
  "penUpper \<equiv> \<lparr>pd_productId = ''BBBBBBBBBBBBBBBBBBBBBBB1'', pd_name = ''Pen'', pd_price = 500,
           pd_image = None, pd_category = None\<rparr>"

abbreviation penLine :: "real \<Rightarrow> cartItem" where
  "penLine q \<equiv> \<lparr>productId = penId, name = ''Pen'', price = 500, quantity = q,
                 image' = [], category = []\<rparr>"

abbreviation inkLine :: "real \<Rightarrow> cartItem" where
  "inkLine q \<equiv> \<lparr>productId = inkId, name = ''Ink'', price = 200, quantity = q,
                 image' = ''ink.png'', category = ''office''\<rparr>"

abbreviation cartOf :: "cartItem list \<Rightarrow> real \<Rightarrow> real \<Rightarrow> cart" where
  "cartOf its amount n \<equiv> \<lparr>userId = userA, items = its, totalAmount = amount, totalItems = n\<rparr>"

abbreviation emptyCart :: "objectId \<Rightarrow> cart" where
  "emptyCart uid \<equiv> \<lparr>userId = uid, items = [], totalAmount = 0, totalItems = 0\<rparr>"

section \<open>Helper facts\<close>

subsection \<open>Totals\<close>

lemma foldl_plus_sum_list:
  "foldl (\<lambda>total item. total + f item) (a::real) xs = a + sum_list (map f xs)"
  by (induction xs arbitrary: a) simp_all

lemma items_calculateTotals [simp]: "items (calculateTotals c) = items c"
  by (simp add: calculateTotals_def)

lemma userId_calculateTotals [simp]: "userId (calculateTotals c) = userId c"
  by (simp add: calculateTotals_def)

lemma totalAmount_calculateTotals:
  "totalAmount (calculateTotals c) = (\<Sum>item\<leftarrow>items c. price item * quantity item)"
  by (simp add: calculateTotals_def foldl_plus_sum_list)

lemma totalItems_calculateTotals:
  "totalItems (calculateTotals c) = (\<Sum>item\<leftarrow>items c. quantity item)"
  by (simp add: calculateTotals_def foldl_plus_sum_list)

subsection \<open>Finding and changing the first line of a product\<close>

lemma findItem_None_iff: "findItem pid its = None \<longleftrightarrow> pid \<notin> productId ` set its"
  by (auto simp: findItem_def find_None_iff)

lemma findItem_Some_productId:
  "findItem pid its = Some l \<Longrightarrow> productId l = pid \<and> l \<in> set its"
  by (auto simp: findItem_def find_Some_iff)

lemma findItem_first:
  "\<forall>i\<in>set xs. productId i \<noteq> pid \<Longrightarrow> productId l = pid \<Longrightarrow>
     findItem pid (xs @ l # ys) = Some l"
  by (induction xs) (simp_all add: findItem_def)

lemma updateFound_first:
  "\<forall>i\<in>set xs. productId i \<noteq> pid \<Longrightarrow> productId l = pid \<Longrightarrow>
     updateFound pid f (xs @ l # ys) = xs @ f l # ys"
  by (induction xs) simp_all

lemma updateFound_absent: "pid \<notin> productId ` set its \<Longrightarrow> updateFound pid f its = its"
  by (induction its) auto

lemma updateFound_not_found: "findItem pid its = None \<Longrightarrow> updateFound pid f its = its"
  by (simp add: findItem_None_iff updateFound_absent)

lemma map_productId_updateFound:
  "(\<And>i. productId (f i) = productId i) \<Longrightarrow>
     map productId (updateFound pid f its) = map productId its"
  by (induction its) simp_all

lemma filter_others_updateFound:
  "(\<And>i. productId (f i) = productId i) \<Longrightarrow>
     filter (\<lambda>i. productId i \<noteq> pid) (updateFound pid f its) =
     filter (\<lambda>i. productId i \<noteq> pid) its"
  by (induction its) simp_all

lemma list_all_updateFound:
  "findItem pid its = Some l \<Longrightarrow> list_all P its \<Longrightarrow> P (f l) \<Longrightarrow>
     list_all P (updateFound pid f its)"
  by (induction its) (auto simp: findItem_def split: if_splits)

lemma list_all_updateFound_found:
  assumes "list_all P its" and "\<And>l. findItem pid its = Some l \<Longrightarrow> P l \<Longrightarrow> P (f l)"
  shows "list_all P (updateFound pid f its)"
proof (cases "findItem pid its")
  case None
  then show ?thesis using assms(1) by (simp add: updateFound_not_found)
next
  case (Some l)
  then have "l \<in> set its" by (simp add: findItem_Some_productId)
  with assms(1) have "P l" by (simp add: list_all_iff)
  with Some assms show ?thesis by (simp add: list_all_updateFound)
qed

lemma list_all_filter: "list_all P its \<Longrightarrow> list_all P (filter Q its)"
  by (induction its) simp_all


subsection \<open>The items after each instance method\<close>

lemma items_addProduct_existing:
  "findItem (pd_productId pd) (items c) = Some l \<Longrightarrow>
   items (addProduct pd c) =
     updateFound (pd_productId pd) (\<lambda>item. item\<lparr>quantity := quantity item + 1\<rparr>) (items c)"
  by (simp add: addProduct_def)

lemma items_addProduct_new:
  "findItem (pd_productId pd) (items c) = None \<Longrightarrow>
   items (addProduct pd c) = items c @
     [\<lparr>productId = castObjectId (pd_productId pd), name = pd_name pd, price = pd_price pd,
       quantity = 1, image' = orEmpty (pd_image pd), category = orEmpty (pd_category pd)\<rparr>]"
  by (simp add: addProduct_def)

lemma items_addProduct:
  "items (addProduct pd c) =
     (case findItem (pd_productId pd) (items c) of
        None \<Rightarrow> items c @
          [\<lparr>productId = castObjectId (pd_productId pd), name = pd_name pd, price = pd_price pd,
            quantity = 1, image' = orEmpty (pd_image pd), category = orEmpty (pd_category pd)\<rparr>]
      | Some l \<Rightarrow>
          updateFound (pd_productId pd) (\<lambda>item. item\<lparr>quantity := quantity item + 1\<rparr>) (items c))"
  by (cases "findItem (pd_productId pd) (items c)")
     (simp_all add: items_addProduct_new items_addProduct_existing)

lemma items_removeProduct:
  "items (removeProduct pid c) = filter (\<lambda>item. productId item \<noteq> pid) (items c)"
  by (simp add: removeProduct_def)

lemma items_updateQuantity:
  "items (updateQuantity pid qty c) =
     (if qty \<le> 0 then filter (\<lambda>item. productId item \<noteq> pid) (items c)
      else updateFound pid (\<lambda>item. item\<lparr>quantity := qty\<rparr>) (items c))"
  by (cases "findItem pid (items c)")
     (simp_all add: updateQuantity_def items_removeProduct updateFound_not_found)

lemma items_increaseQuantity:
  "items (increaseQuantity pid c) =
     updateFound pid (\<lambda>item. item\<lparr>quantity := quantity item + 1\<rparr>) (items c)"
  by (cases "findItem pid (items c)")
     (simp_all add: increaseQuantity_def updateFound_not_found)

lemma items_decreaseQuantity:
  "items (decreaseQuantity pid c) =
     (case findItem pid (items c) of
        None \<Rightarrow> items c
      | Some l \<Rightarrow>
          if quantity l - 1 \<le> 0 then filter (\<lambda>item. productId item \<noteq> pid) (items c)
          else updateFound pid (\<lambda>item. item\<lparr>quantity := quantity item - 1\<rparr>) (items c))"
  by (cases "findItem pid (items c)")
     (simp_all add: decreaseQuantity_def Let_def items_removeProduct filter_others_updateFound)

lemma items_clearCart: "items (clearCart c) = []"
  by (simp add: clearCart_def)



lemma fold_addProduct_same:
  assumes "\<forall>d\<in>set pds. pd_productId d = pid"
    and "\<forall>i\<in>set xs. productId i \<noteq> pid" and "productId l = pid"
    and "items c = xs @ l # ys"
  shows "items (fold addProduct pds c) = xs @ l\<lparr>quantity := quantity l + real (length pds)\<rparr> # ys"
  using assms
proof (induction pds arbitrary: c l)
  case Nil
  then show ?case by simp
next
  case (Cons d pds)
  have pid: "pd_productId d = pid" using Cons.prems(1) by simp
  have found: "findItem (pd_productId d) (items c) = Some l"
    using Cons.prems by (simp add: pid findItem_first)
  have step: "items (addProduct d c) = xs @ l\<lparr>quantity := quantity l + 1\<rparr> # ys"
    using Cons.prems by (simp add: items_addProduct_existing [OF found] pid updateFound_first)
  have "items (fold addProduct pds (addProduct d c)) =
          xs @ (l\<lparr>quantity := quantity l + 1\<rparr>)\<lparr>quantity :=
                 quantity (l\<lparr>quantity := quantity l + 1\<rparr>) + real (length pds)\<rparr> # ys"
    using Cons.prems by (intro Cons.IH [OF _ _ _ step]) simp_all
  then show ?case by (simp add: add.assoc)
qed

subsection \<open>Saving\<close>

lemma save_valid:
  "validCart c \<Longrightarrow> save c db = (Inr (calculateTotals c), db(userId c \<mapsto> calculateTotals c))"
  by (simp add: save_def Let_def)


lemma save_Inr:
  "save c db = (Inr c', db') \<Longrightarrow>
     validCart c \<and> c' = calculateTotals c \<and> db' = db(userId c \<mapsto> calculateTotals c)"
  by (auto simp: save_def Let_def split: if_splits)

lemma validCart_emptyCart: "validCart (emptyCart uid)"
  by (simp add: validCart_def)

lemma getOrCreateCart_absent:
  "findOne uid db = None \<Longrightarrow>
     getOrCreateCart uid db = (Inr (emptyCart uid), db(uid \<mapsto> emptyCart uid))"
  by (simp add: getOrCreateCart_def save_valid validCart_emptyCart calculateTotals_def)

lemma getOrCreateCart_present:
  "findOne uid db = Some c \<Longrightarrow> getOrCreateCart uid db = (Inr c, db)"
  by (simp add: getOrCreateCart_def)

lemma getOrCreateCart_succeeds: "\<exists>c db1. getOrCreateCart uid db = (Inr c, db1)"
  by (cases "findOne uid db") (simp_all add: getOrCreateCart_absent getOrCreateCart_present)

lemma mutateUserCart_save:
  "mutateUserCart uid m db =
     (case getOrCreateCart uid db of
        (Inl e, db1) \<Rightarrow> (Inl e, db1)
      | (Inr c, db1) \<Rightarrow> save (mutate m c) db1)"
  by (cases m)
     (simp_all add: addProductToCart_def removeProductFromCart_def updateProductQuantity_def
        increaseProductQuantity_def decreaseProductQuantity_def clearUserCart_def
        split: prod.splits sum.splits)


subsection \<open>Integers among the reals\<close>

lemma isInteger_iff_Ints: "isInteger x \<longleftrightarrow> x \<in> \<int>"
  by (metis Ints_of_int floor_of_int isInteger_def Ints_cases)

lemma isInteger_add_one: "isInteger x \<Longrightarrow> isInteger (x + 1)"
  by (simp add: isInteger_iff_Ints)

lemma isInteger_diff_one: "isInteger x \<Longrightarrow> isInteger (x - 1)"
  by (simp add: isInteger_iff_Ints)

lemma isInteger_pos_ge_one:
  assumes "isInteger x" and "0 < x"
  shows "1 \<le> x"
proof -
  from assms(1) obtain k :: int where x: "x = of_int k"
    by (auto simp: isInteger_iff_Ints elim: Ints_cases)
  with assms(2) have "0 < k" by simp
  then have "1 \<le> k" by simp
  then show ?thesis by (simp add: x)
qed

subsection \<open>Quantities\<close>

lemma quantitiesValid_positive: "quantitiesValid c \<Longrightarrow> quantitiesPositive c"
  by (auto simp: quantitiesValid_def quantitiesPositive_def list_all_iff)

lemma quantitiesPositive_mutate:
  assumes "quantitiesPositive c"
  shows "quantitiesPositive (mutate m c)"
proof -
  let ?P = "\<lambda>item. 0 < quantity item"
  have pos: "list_all ?P (items c)"
    using assms by (simp add: quantitiesPositive_def)
  show ?thesis
  proof (cases m)
    case (AddProduct pd)
    have "list_all ?P (updateFound (pd_productId pd) (\<lambda>item. item\<lparr>quantity := quantity item + 1\<rparr>) (items c))"
      using pos by (rule list_all_updateFound_found) simp
    then show ?thesis using pos AddProduct
      by (simp add: quantitiesPositive_def items_addProduct split: option.splits)
  next
    case (RemoveProduct pid)
    then show ?thesis using pos
      by (simp add: quantitiesPositive_def items_removeProduct list_all_filter)
  next
    case (UpdateQuantity pid qty)
    have "\<not> qty \<le> 0 \<Longrightarrow> list_all ?P (updateFound pid (\<lambda>item. item\<lparr>quantity := qty\<rparr>) (items c))"
      using pos by (rule list_all_updateFound_found) simp
    then show ?thesis using pos UpdateQuantity
      by (simp add: quantitiesPositive_def items_updateQuantity list_all_filter)
  next
    case (IncreaseQuantity pid)
    have "list_all ?P (updateFound pid (\<lambda>item. item\<lparr>quantity := quantity item + 1\<rparr>) (items c))"
      using pos by (rule list_all_updateFound_found) simp
    then show ?thesis using IncreaseQuantity
      by (simp add: quantitiesPositive_def items_increaseQuantity)
  next
    case (DecreaseQuantity pid)
    have "findItem pid (items c) = Some l \<Longrightarrow> \<not> quantity l - 1 \<le> 0 \<Longrightarrow>
        list_all ?P (updateFound pid (\<lambda>item. item\<lparr>quantity := quantity item - 1\<rparr>) (items c))" for l
      using pos by (rule list_all_updateFound_found) simp
    then show ?thesis using pos DecreaseQuantity
      by (simp add: quantitiesPositive_def items_decreaseQuantity list_all_filter
          split: option.splits)
  next
    case ClearCart
    then show ?thesis by (simp add: quantitiesPositive_def items_clearCart)
  qed
qed

lemma quantitiesValid_mutate:
  assumes "quantitiesValid c" and "integerInput m"
  shows "quantitiesValid (mutate m c)"
proof -
  let ?P = "\<lambda>item. isInteger (quantity item) \<and> 1 \<le> quantity item"
  have valid: "list_all ?P (items c)"
    using assms(1) by (simp add: quantitiesValid_def)
  show ?thesis
  proof (cases m)
    case (AddProduct pd)
    have "list_all ?P (updateFound (pd_productId pd) (\<lambda>item. item\<lparr>quantity := quantity item + 1\<rparr>) (items c))"
      using valid by (rule list_all_updateFound_found) (simp add: isInteger_add_one)
    moreover have "isInteger 1" by (simp add: isInteger_def)
    ultimately show ?thesis using valid AddProduct
      by (simp add: quantitiesValid_def items_addProduct split: option.splits)
  next
    case (RemoveProduct pid)
    then show ?thesis using valid
      by (simp add: quantitiesValid_def items_removeProduct list_all_filter)
  next
    case (UpdateQuantity pid qty)
    with assms(2) have int: "isInteger qty" by simp
    have "\<not> qty \<le> 0 \<Longrightarrow> list_all ?P (updateFound pid (\<lambda>item. item\<lparr>quantity := qty\<rparr>) (items c))"
      using valid by (rule list_all_updateFound_found) (simp add: int isInteger_pos_ge_one)
    then show ?thesis using valid UpdateQuantity
      by (simp add: quantitiesValid_def items_updateQuantity list_all_filter)
  next
    case (IncreaseQuantity pid)
    have "list_all ?P (updateFound pid (\<lambda>item. item\<lparr>quantity := quantity item + 1\<rparr>) (items c))"
      using valid by (rule list_all_updateFound_found) (simp add: isInteger_add_one)
    then show ?thesis using IncreaseQuantity
      by (simp add: quantitiesValid_def items_increaseQuantity)
  next
    case (DecreaseQuantity pid)
    have "findItem pid (items c) = Some l \<Longrightarrow> \<not> quantity l - 1 \<le> 0 \<Longrightarrow>
        list_all ?P (updateFound pid (\<lambda>item. item\<lparr>quantity := quantity item - 1\<rparr>) (items c))" for l
      using valid
    proof (rule list_all_updateFound_found)
      fix l'
      assume "findItem pid (items c) = Some l" "\<not> quantity l - 1 \<le> 0"
        "findItem pid (items c) = Some l'" "isInteger (quantity l') \<and> 1 \<le> quantity l'"
      then have "l' = l" "isInteger (quantity l' - 1)" "0 < quantity l' - 1"
        by (simp_all add: isInteger_diff_one)
      then show "isInteger (quantity (l'\<lparr>quantity := quantity l' - 1\<rparr>)) \<and>
          1 \<le> quantity (l'\<lparr>quantity := quantity l' - 1\<rparr>)"
        using isInteger_pos_ge_one [of "quantity l' - 1"] by simp
    qed
    then show ?thesis using valid DecreaseQuantity
      by (simp add: quantitiesValid_def items_decreaseQuantity list_all_filter
          split: option.splits)
  next
    case ClearCart
    then show ?thesis by (simp add: quantitiesValid_def items_clearCart)
  qed
qed

subsection \<open>Ids in lower case\<close>

text \<open>
  What \<^verbatim>\<open>addProduct\<close> does to the items, for any id: it changes the first line whose
  stored id is the caller's string, or appends a line with the cast id. For a caller's
  string that is its own cast (all digits in lower case), calls with the same id from a
  cart without it give one line, with the number of calls as its quantity.
\<close>

lemma addProduct_lines_canonical_id:
  "(\<forall>xs l ys. items c = xs @ l # ys \<and> productId l = pd_productId pd \<and>
        (\<forall>i\<in>set xs. productId i \<noteq> pd_productId pd) \<longrightarrow>
      items (addProduct pd c) = xs @ l\<lparr>quantity := quantity l + 1\<rparr> # ys) \<and>
   (pd_productId pd \<notin> productId ` set (items c) \<longrightarrow>
      items (addProduct pd c) = items c @
        [\<lparr>productId = castObjectId (pd_productId pd), name = pd_name pd, price = pd_price pd,
          quantity = 1, image' = orEmpty (pd_image pd), category = orEmpty (pd_category pd)\<rparr>]) \<and>
   (castObjectId (pd_productId pd) = pd_productId pd \<and>
      pd_productId pd \<notin> productId ` set (items c) \<and>
      (\<forall>d\<in>set pds. pd_productId d = pd_productId pd) \<longrightarrow>
      items (fold addProduct (pd # pds) c) = items c @
        [\<lparr>productId = pd_productId pd, name = pd_name pd, price = pd_price pd,
          quantity = real (length (pd # pds)),
          image' = orEmpty (pd_image pd), category = orEmpty (pd_category pd)\<rparr>])"
proof (intro conjI allI impI)
  fix xs l ys
  assume a: "items c = xs @ l # ys \<and> productId l = pd_productId pd \<and>
        (\<forall>i\<in>set xs. productId i \<noteq> pd_productId pd)"
  then have found: "findItem (pd_productId pd) (items c) = Some l"
    by (simp add: findItem_first)
  show "items (addProduct pd c) = xs @ l\<lparr>quantity := quantity l + 1\<rparr> # ys"
    using a by (simp add: items_addProduct_existing [OF found] updateFound_first)
next
  assume "pd_productId pd \<notin> productId ` set (items c)"
  then have "findItem (pd_productId pd) (items c) = None"
    by (simp add: findItem_None_iff)
  then show "items (addProduct pd c) = items c @
        [\<lparr>productId = castObjectId (pd_productId pd), name = pd_name pd, price = pd_price pd,
          quantity = 1, image' = orEmpty (pd_image pd), category = orEmpty (pd_category pd)\<rparr>]"
    by (rule items_addProduct_new)
next
  assume a: "castObjectId (pd_productId pd) = pd_productId pd \<and>
      pd_productId pd \<notin> productId ` set (items c) \<and>
      (\<forall>d\<in>set pds. pd_productId d = pd_productId pd)"
  define l where "l = \<lparr>productId = pd_productId pd, name = pd_name pd, price = pd_price pd,
          quantity = 1, image' = orEmpty (pd_image pd), category = orEmpty (pd_category pd)\<rparr>"
  from a have none: "findItem (pd_productId pd) (items c) = None"
    by (simp add: findItem_None_iff)
  have first: "items (addProduct pd c) = items c @ l # []"
    unfolding l_def using a by (simp add: items_addProduct_new [OF none])
  have others: "\<forall>i\<in>set (items c). productId i \<noteq> pd_productId pd"
    using a by (metis image_eqI)
  have "items (fold addProduct pds (addProduct pd c)) =
          items c @ l\<lparr>quantity := quantity l + real (length pds)\<rparr> # []"
    using a others by (intro fold_addProduct_same [OF _ _ _ first]) (simp_all add: l_def)
  then show "items (fold addProduct (pd # pds) c) = items c @
        [\<lparr>productId = pd_productId pd, name = pd_name pd, price = pd_price pd,
          quantity = real (length (pd # pds)),
          image' = orEmpty (pd_image pd), category = orEmpty (pd_category pd)\<rparr>]"
    by (simp add: l_def)
qed

text \<open>
  Every mutation keeps the product ids of the items distinct, \<^verbatim>\<open>addProduct\<close> when
  the caller's string is its own cast.
\<close>

lemma one_line_per_product_canonical_id:
  assumes "distinct (map productId (items c))"
    and "\<And>pd. m = AddProduct pd \<Longrightarrow> castObjectId (pd_productId pd) = pd_productId pd"
  shows "distinct (map productId (items (mutate m c)))"
proof (cases m)
  case (AddProduct pd)
  show ?thesis
  proof (cases "findItem (pd_productId pd) (items c)")
    case None
    moreover from None have "pd_productId pd \<notin> productId ` set (items c)"
      by (simp add: findItem_None_iff)
    ultimately show ?thesis using assms(1) assms(2) [OF AddProduct] AddProduct
      by (simp add: items_addProduct)
  next
    case (Some l)
    then show ?thesis using assms(1) AddProduct
      by (simp add: items_addProduct map_productId_updateFound)
  qed
next
  case (RemoveProduct pid)
  then show ?thesis using assms(1) by (simp add: items_removeProduct distinct_map_filter)
next
  case (UpdateQuantity pid qty)
  then show ?thesis using assms(1)
    by (simp add: items_updateQuantity distinct_map_filter map_productId_updateFound)
next
  case (IncreaseQuantity pid)
  then show ?thesis using assms(1) by (simp add: items_increaseQuantity map_productId_updateFound)
next
  case (DecreaseQuantity pid)
  then show ?thesis using assms(1)
    by (simp add: items_decreaseQuantity distinct_map_filter map_productId_updateFound
        split: option.splits)
next
  case ClearCart
  then show ?thesis by (simp add: items_clearCart)
qed

section \<open>Properties of the cart\<close>

subsection \<open>Totals\<close>

text \<open>
  C1. Whatever the collection holds and whichever mutation is applied to a user's cart,
  the cart the static method returns, which is the cart it has saved (through the
  pre-save recomputation), has \<open>totalAmount\<close> equal to the sum of \<open>price * quantity\<close>
  over its items and \<open>totalItems\<close> equal to the sum of the quantities; with no items both
  are 0. In memory, before the save, each instance method keeps the totals equal to
  these sums when the cart it is applied to has them so.
\<close>

theorem totals_recomputed_after_mutation:
  assumes "mutateUserCart uid m db = (Inr c', db')"
  shows "totalAmount c' = (\<Sum>item\<leftarrow>items c'. price item * quantity item) \<and>
         totalItems c' = (\<Sum>item\<leftarrow>items c'. quantity item) \<and>
         db' (userId c') = Some c' \<and>
         (items c' = [] \<longrightarrow> totalAmount c' = 0 \<and> totalItems c' = 0) \<and>
         (totalAmount c = (\<Sum>item\<leftarrow>items c. price item * quantity item) \<and>
          totalItems c = (\<Sum>item\<leftarrow>items c. quantity item) \<longrightarrow>
          totalAmount (mutate m c) = (\<Sum>item\<leftarrow>items (mutate m c). price item * quantity item) \<and>
          totalItems (mutate m c) = (\<Sum>item\<leftarrow>items (mutate m c). quantity item))"
proof -
  obtain c0 db0 where fetched: "getOrCreateCart uid db = (Inr c0, db0)"
    using getOrCreateCart_succeeds by blast
  with assms have saved: "save (mutate m c0) db0 = (Inr c', db')"
    by (simp add: mutateUserCart_save)
  have c': "c' = calculateTotals (mutate m c0)"
    using save_Inr [OF saved] by simp
  have db': "db' = db0(userId (mutate m c0) \<mapsto> calculateTotals (mutate m c0))"
    using save_Inr [OF saved] by simp
  have amount: "totalAmount c' = (\<Sum>item\<leftarrow>items c'. price item * quantity item)"
    by (simp add: c' totalAmount_calculateTotals)
  have count: "totalItems c' = (\<Sum>item\<leftarrow>items c'. quantity item)"
    by (simp add: c' totalItems_calculateTotals)
  have stored: "db' (userId c') = Some c'"
    by (simp add: c' db')
  have memory:
    "totalAmount (mutate m c) = (\<Sum>item\<leftarrow>items (mutate m c). price item * quantity item) \<and>
     totalItems (mutate m c) = (\<Sum>item\<leftarrow>items (mutate m c). quantity item)"
    if "totalAmount c = (\<Sum>item\<leftarrow>items c. price item * quantity item)"
      and "totalItems c = (\<Sum>item\<leftarrow>items c. quantity item)"
    using that
    by (cases m)
       (simp_all add: addProduct_def removeProduct_def updateQuantity_def increaseQuantity_def
          decreaseQuantity_def clearCart_def Let_def totalAmount_calculateTotals
          totalItems_calculateTotals split: option.splits)
  from amount count stored memory show ?thesis by simp
qed

theorem totals_recomputed_after_mutation_witness:
  "mutateUserCart userA (IncreaseQuantity penId) [userA \<mapsto> cartOf [penLine 2] 1000 2] =
     (Inr (cartOf [penLine 3] 1500 3), [userA \<mapsto> cartOf [penLine 3] 1500 3]) \<and>
   totalAmount (cartOf [penLine 3] 1500 3) =
     (\<Sum>item\<leftarrow>items (cartOf [penLine 3] 1500 3). price item * quantity item) \<and>
   totalItems (cartOf [penLine 3] 1500 3) =
     (\<Sum>item\<leftarrow>items (cartOf [penLine 3] 1500 3). quantity item) \<and>
   totalAmount (mutate (IncreaseQuantity penId) (cartOf [penLine 2] 1000 2)) = 1500 \<and>
   totalItems (mutate (IncreaseQuantity penId) (cartOf [penLine 2] 1000 2)) = 3"
proof -
  have run: "mutateUserCart userA (IncreaseQuantity penId) [userA \<mapsto> cartOf [penLine 2] 1000 2] =
     (Inr (cartOf [penLine 3] 1500 3), [userA \<mapsto> cartOf [penLine 3] 1500 3])"
    by (simp add: increaseProductQuantity_def getOrCreateCart_def findOne_def save_def
        validCart_def validItem_def increaseQuantity_def findItem_def calculateTotals_def Let_def)
  have items: "items (mutate (IncreaseQuantity penId) (cartOf [penLine 2] 1000 2)) = [penLine 3]"
    by (simp add: increaseQuantity_def findItem_def)
  show ?thesis
    using totals_recomputed_after_mutation [OF run, of "cartOf [penLine 2] 1000 2"] run items
    by simp
qed

text \<open>
  C6. Whatever the cart's items and totals were, \<^verbatim>\<open>clearCart\<close> yields a cart with no
  items, \<open>totalAmount = 0\<close> and \<open>totalItems = 0\<close>; \<^verbatim>\<open>clearUserCart\<close> always
  succeeds, and the cart it saves and returns is such a cart.
\<close>

theorem clearCart_yields_empty_cart:
  "items (clearCart c) = [] \<and> totalAmount (clearCart c) = 0 \<and> totalItems (clearCart c) = 0 \<and>
   (\<exists>c'. fst (clearUserCart uid db) = Inr c' \<and>
      items c' = [] \<and> totalAmount c' = 0 \<and> totalItems c' = 0)"
proof -
  obtain c0 db0 where fetched: "getOrCreateCart uid db = (Inr c0, db0)"
    using getOrCreateCart_succeeds by blast
  have "validCart (clearCart c0)"
    by (simp add: validCart_def clearCart_def)
  then have "fst (clearUserCart uid db) = Inr (calculateTotals (clearCart c0))"
    by (simp add: clearUserCart_def fetched save_valid)
  moreover have "items (calculateTotals (clearCart c0)) = [] \<and>
      totalAmount (calculateTotals (clearCart c0)) = 0 \<and>
      totalItems (calculateTotals (clearCart c0)) = 0"
    by (simp add: clearCart_def calculateTotals_def)
  ultimately have "\<exists>c'. fst (clearUserCart uid db) = Inr c' \<and>
      items c' = [] \<and> totalAmount c' = 0 \<and> totalItems c' = 0"
    by blast
  then show ?thesis by (simp add: clearCart_def)
qed

theorem clearCart_yields_empty_cart_witness:
  "clearCart (cartOf [penLine 2, inkLine 1] 7 9) = cartOf [] 0 0 \<and>
   items (clearCart (cartOf [penLine 2, inkLine 1] 7 9)) = [] \<and>
   totalAmount (clearCart (cartOf [penLine 2, inkLine 1] 7 9)) = 0 \<and>
   totalItems (clearCart (cartOf [penLine 2, inkLine 1] 7 9)) = 0"
  using clearCart_yields_empty_cart [of "cartOf [penLine 2, inkLine 1] 7 9" userA Map.empty]
  by (simp add: clearCart_def)

subsection \<open>Adding a product\<close>

text \<open>
  C2. \<^verbatim>\<open>addProduct\<close> on a cart that has a line of the product is to add 1 to the
  quantity of that line and leave its other fields, and on a cart with no line of the
  product to append a line with quantity 1; so N calls with the same product id, from a
  cart without it, are to give one line of quantity N and never N lines. The code does
  so for an id written in lower case (\<open>addProduct_lines_canonical_id\<close>) and not for
  one with an upper-case digit: the line it appends stores the id in lower case,
  \<^verbatim>\<open>find\<close> compares the stored id with the caller's string, and the two never match.
  With the pen's id \<open>BBBBBBBBBBBBBBBBBBBBBBB1\<close>, which is the \<^verbatim>\<open>ObjectId\<close> of the
  line \<open>penLine\<close>: on a cart that has the pen's line with quantity 1 the call leaves
  that line at 1 and appends a second line of the pen, and three calls on an empty cart
  give three lines of the pen with quantity 1 each.
\<close>

theorem addProduct_upper_case_id_duplicates:
  "castObjectId (pd_productId penUpper) = productId (penLine 1) \<and>
   items (addProduct penUpper (cartOf [penLine 1] 500 1)) = [penLine 1, penLine 1] \<and>
   items (fold addProduct [penUpper, penUpper, penUpper] (emptyCart userA)) =
     [penLine 1, penLine 1, penLine 1]"
  by (simp add: addProduct_def findItem_def castObjectId_def lowerHex_def)

subsection \<open>One line per product\<close>

text \<open>
  C3. A cart with at most one line per product is to have at most one line per product
  after any mutation. The code keeps it so for every mutation but \<^verbatim>\<open>addProduct\<close>
  with an id that has an upper-case digit (\<open>one_line_per_product_canonical_id\<close>).
  With the pen's id \<open>BBBBBBBBBBBBBBBBBBBBBBB1\<close> on the cart that has the pen's line,
  \<^verbatim>\<open>find\<close> does not match the stored lower-case id, \<^verbatim>\<open>addProduct\<close> appends a second
  line whose stored id is the same, and \<^verbatim>\<open>addProductToCart\<close> saves the cart with
  the two lines of one product.
\<close>

theorem addProduct_upper_case_id_two_lines_of_one_product:
  "distinct (map productId (items (cartOf [penLine 1] 500 1))) \<and>
   map productId (items (mutate (AddProduct penUpper) (cartOf [penLine 1] 500 1))) =
     [penId, penId] \<and>
   \<not> distinct (map productId (items (mutate (AddProduct penUpper) (cartOf [penLine 1] 500 1)))) \<and>
   addProductToCart userA penUpper [userA \<mapsto> cartOf [penLine 1] 500 1] =
     (Inr (cartOf [penLine 1, penLine 1] 1000 2),
      [userA \<mapsto> cartOf [penLine 1, penLine 1] 1000 2])"
proof -
  have its: "items (addProduct penUpper (cartOf [penLine 1] 500 1)) = [penLine 1, penLine 1]"
    by (simp add: addProduct_def findItem_def castObjectId_def lowerHex_def)
  have added: "addProduct penUpper (cartOf [penLine 1] 500 1) = cartOf [penLine 1, penLine 1] 1000 2"
    by (simp add: addProduct_def findItem_def castObjectId_def lowerHex_def calculateTotals_def)
  have saved: "addProductToCart userA penUpper [userA \<mapsto> cartOf [penLine 1] 500 1] =
     (Inr (cartOf [penLine 1, penLine 1] 1000 2),
      [userA \<mapsto> cartOf [penLine 1, penLine 1] 1000 2])"
    by (simp add: addProductToCart_def getOrCreateCart_def findOne_def added save_def
        validCart_def validItem_def calculateTotals_def Let_def)
  from its saved show ?thesis by simp
qed

subsection \<open>Setting and decreasing a quantity\<close>

text \<open>
  C4. \<^verbatim>\<open>updateQuantity\<close> with the quantity 0, or any quantity that is at most 0, gives
  exactly the cart that \<^verbatim>\<open>removeProduct\<close> gives for the same product, in memory and
  as saved by the static methods.
\<close>

theorem updateQuantity_nonpositive_is_removeProduct:
  assumes "qty \<le> 0"
  shows "updateQuantity pid qty c = removeProduct pid c \<and>
         updateProductQuantity uid pid qty db = removeProductFromCart uid pid db"
  using assms
  by (simp add: updateQuantity_def updateProductQuantity_def removeProductFromCart_def
      split: prod.splits sum.splits)

theorem updateQuantity_nonpositive_is_removeProduct_witness:
  "(0::real) \<le> 0 \<and>
   updateQuantity penId 0 (cartOf [penLine 2, inkLine 1] 1200 3) =
     removeProduct penId (cartOf [penLine 2, inkLine 1] 1200 3) \<and>
   updateQuantity penId 0 (cartOf [penLine 2, inkLine 1] 1200 3) = cartOf [inkLine 1] 200 1"
proof -
  have le: "(0::real) \<le> 0" by simp
  have "removeProduct penId (cartOf [penLine 2, inkLine 1] 1200 3) = cartOf [inkLine 1] 200 1"
    by (simp add: removeProduct_def calculateTotals_def)
  with le updateQuantity_nonpositive_is_removeProduct
            [OF le, of "penId" "cartOf [penLine 2, inkLine 1] 1200 3" "userA" Map.empty]
  show ?thesis by simp
qed



text \<open>
  C7, as the code has it. From a cart in which every line's quantity is an integer that is
  at least 1, no mutation leaves a line with a quantity of 0 or less: a line whose
  quantity would become 0 or less is deleted. Every line's quantity is again an integer
  that is at least 1 when the quantity given to \<^verbatim>\<open>updateQuantity\<close> is an integer; no
  method checks that it is one.
\<close>

theorem quantities_stay_valid:
  assumes "quantitiesValid c"
  shows "quantitiesPositive (mutate m c) \<and> (integerInput m \<longrightarrow> quantitiesValid (mutate m c))"
  using assms quantitiesValid_positive [of c] quantitiesPositive_mutate [of c m]
    quantitiesValid_mutate [of c m] by simp

theorem quantities_stay_valid_witness:
  "quantitiesValid (cartOf [inkLine 2, penLine 1] 900 3) \<and>
   integerInput (UpdateQuantity inkId 5) \<and>
   items (mutate (UpdateQuantity inkId 5) (cartOf [inkLine 2, penLine 1] 900 3)) =
     [inkLine 5, penLine 1] \<and>
   quantitiesPositive (mutate (UpdateQuantity inkId 5) (cartOf [inkLine 2, penLine 1] 900 3)) \<and>
   quantitiesValid (mutate (UpdateQuantity inkId 5) (cartOf [inkLine 2, penLine 1] 900 3))"
proof -
  have valid: "quantitiesValid (cartOf [inkLine 2, penLine 1] 900 3)"
    by (simp add: quantitiesValid_def isInteger_def)
  have int: "integerInput (UpdateQuantity inkId 5)"
    by (simp add: isInteger_def)
  have "items (mutate (UpdateQuantity inkId 5) (cartOf [inkLine 2, penLine 1] 900 3)) =
     [inkLine 5, penLine 1]"
    by (simp add: updateQuantity_def findItem_def)
  with valid int quantities_stay_valid [OF valid, of "UpdateQuantity inkId 5"]
  show ?thesis by simp
qed

text \<open>
  C7 as the specification states it fails: the quantity 1.5 is a number, and
  \<^verbatim>\<open>updateQuantity\<close> stores it as it is, so a cart whose quantities were integers has a
  line whose quantity is not an integer. The schema's \<^verbatim>\<open>min: 1\<close> accepts 1.5, and
  the cart is saved so.
\<close>

theorem quantity_integer_counterexample:
  "quantitiesValid (cartOf [penLine 1] 500 1) \<and>
   items (mutate (UpdateQuantity penId (3 / 2)) (cartOf [penLine 1] 500 1)) = [penLine (3 / 2)] \<and>
   (3 / 2 :: real) \<notin> \<int> \<and>
   \<not> quantitiesValid (mutate (UpdateQuantity penId (3 / 2)) (cartOf [penLine 1] 500 1)) \<and>
   mutateUserCart userA (UpdateQuantity penId (3 / 2)) [userA \<mapsto> cartOf [penLine 1] 500 1] =
     (Inr (cartOf [penLine (3 / 2)] 750 (3 / 2)),
      [userA \<mapsto> cartOf [penLine (3 / 2)] 750 (3 / 2)])"
proof -
  have frac: "\<not> isInteger (3 / 2)"
    by (simp add: isInteger_def)
  have its: "items (mutate (UpdateQuantity penId (3 / 2)) (cartOf [penLine 1] 500 1)) =
      [penLine (3 / 2)]"
    by (simp add: updateQuantity_def findItem_def)
  have "quantitiesValid (cartOf [penLine 1] 500 1)"
    by (simp add: quantitiesValid_def isInteger_def)
  moreover have "(3 / 2 :: real) \<notin> \<int>"
    using frac by (simp add: isInteger_iff_Ints)
  moreover have "\<not> quantitiesValid (mutate (UpdateQuantity penId (3 / 2)) (cartOf [penLine 1] 500 1))"
    using frac its by (simp add: quantitiesValid_def)
  moreover have "mutateUserCart userA (UpdateQuantity penId (3 / 2))
      [userA \<mapsto> cartOf [penLine 1] 500 1] =
     (Inr (cartOf [penLine (3 / 2)] 750 (3 / 2)),
      [userA \<mapsto> cartOf [penLine (3 / 2)] 750 (3 / 2)])"
    by (simp add: updateProductQuantity_def getOrCreateCart_def findOne_def save_def
        validCart_def validItem_def updateQuantity_def findItem_def calculateTotals_def Let_def)
  ultimately show ?thesis using its by simp
qed

subsection \<open>The other lines\<close>

text \<open>
  C10. A mutation aimed at one product (\<^verbatim>\<open>addProduct\<close> on a product the cart has a
  line of, \<^verbatim>\<open>removeProduct\<close>, \<^verbatim>\<open>updateQuantity\<close>, \<^verbatim>\<open>increaseQuantity\<close>,
  \<^verbatim>\<open>decreaseQuantity\<close>) leaves the lines of every other product as they are, with
  all their fields and in their order: the items of the other products are the same
  list before and after. (\<^verbatim>\<open>addProduct\<close> that finds no line leaves every line as it
  is too and appends one.) The line aimed at keeps its place when it stays: the sequence
  of product ids is unchanged by \<^verbatim>\<open>increaseQuantity\<close>, by \<^verbatim>\<open>updateQuantity\<close> with
  a positive quantity and by \<^verbatim>\<open>addProduct\<close> on a product the cart has;
  \<^verbatim>\<open>decreaseQuantity\<close> leaves it unchanged or leaves exactly the other products'
  lines, as \<^verbatim>\<open>removeProduct\<close> does.
\<close>

theorem other_lines_unchanged:
  "(pd_productId pd \<in> productId ` set (items c) \<longrightarrow>
      filter (\<lambda>item. productId item \<noteq> pd_productId pd) (items (addProduct pd c)) =
        filter (\<lambda>item. productId item \<noteq> pd_productId pd) (items c)) \<and>
   (pd_productId pd \<notin> productId ` set (items c) \<longrightarrow>
      (\<exists>l. items (addProduct pd c) = items c @ [l])) \<and>
   filter (\<lambda>item. productId item \<noteq> pid) (items (removeProduct pid c)) =
     filter (\<lambda>item. productId item \<noteq> pid) (items c) \<and>
   filter (\<lambda>item. productId item \<noteq> pid) (items (updateQuantity pid qty c)) =
     filter (\<lambda>item. productId item \<noteq> pid) (items c) \<and>
   filter (\<lambda>item. productId item \<noteq> pid) (items (increaseQuantity pid c)) =
     filter (\<lambda>item. productId item \<noteq> pid) (items c) \<and>
   filter (\<lambda>item. productId item \<noteq> pid) (items (decreaseQuantity pid c)) =
     filter (\<lambda>item. productId item \<noteq> pid) (items c) \<and>
   map productId (items (increaseQuantity pid c)) = map productId (items c) \<and>
   (0 < qty \<longrightarrow> map productId (items (updateQuantity pid qty c)) = map productId (items c)) \<and>
   (pd_productId pd \<in> productId ` set (items c) \<longrightarrow>
      map productId (items (addProduct pd c)) = map productId (items c)) \<and>
   items (removeProduct pid c) = filter (\<lambda>item. productId item \<noteq> pid) (items c) \<and>
   (map productId (items (decreaseQuantity pid c)) = map productId (items c) \<or>
    items (decreaseQuantity pid c) = filter (\<lambda>item. productId item \<noteq> pid) (items c))"
proof (intro conjI impI)
  show "filter (\<lambda>item. productId item \<noteq> pd_productId pd) (items (addProduct pd c)) =
     filter (\<lambda>item. productId item \<noteq> pd_productId pd) (items c)"
    if "pd_productId pd \<in> productId ` set (items c)"
  proof (cases "findItem (pd_productId pd) (items c)")
    case None
    with that show ?thesis by (simp add: findItem_None_iff)
  next
    case (Some l)
    then show ?thesis by (simp add: items_addProduct filter_others_updateFound)
  qed
  show "\<exists>l. items (addProduct pd c) = items c @ [l]"
    if "pd_productId pd \<notin> productId ` set (items c)"
    using that by (simp add: items_addProduct_new findItem_None_iff)
  show "filter (\<lambda>item. productId item \<noteq> pid) (items (removeProduct pid c)) =
     filter (\<lambda>item. productId item \<noteq> pid) (items c)"
    by (simp add: items_removeProduct)
  show "filter (\<lambda>item. productId item \<noteq> pid) (items (updateQuantity pid qty c)) =
     filter (\<lambda>item. productId item \<noteq> pid) (items c)"
    by (simp add: items_updateQuantity filter_others_updateFound)
  show "filter (\<lambda>item. productId item \<noteq> pid) (items (increaseQuantity pid c)) =
     filter (\<lambda>item. productId item \<noteq> pid) (items c)"
    by (simp add: items_increaseQuantity filter_others_updateFound)
  show "filter (\<lambda>item. productId item \<noteq> pid) (items (decreaseQuantity pid c)) =
     filter (\<lambda>item. productId item \<noteq> pid) (items c)"
    by (simp add: items_decreaseQuantity filter_others_updateFound split: option.splits)
  show "map productId (items (increaseQuantity pid c)) = map productId (items c)"
    by (simp add: items_increaseQuantity map_productId_updateFound)
  show "map productId (items (updateQuantity pid qty c)) = map productId (items c)" if "0 < qty"
    using that by (simp add: items_updateQuantity map_productId_updateFound)
  show "map productId (items (addProduct pd c)) = map productId (items c)"
    if "pd_productId pd \<in> productId ` set (items c)"
  proof (cases "findItem (pd_productId pd) (items c)")
    case None
    with that show ?thesis by (simp add: findItem_None_iff)
  next
    case (Some l)
    then show ?thesis by (simp add: items_addProduct map_productId_updateFound)
  qed
  show "items (removeProduct pid c) = filter (\<lambda>item. productId item \<noteq> pid) (items c)"
    by (rule items_removeProduct)
  show "map productId (items (decreaseQuantity pid c)) = map productId (items c) \<or>
    items (decreaseQuantity pid c) = filter (\<lambda>item. productId item \<noteq> pid) (items c)"
    by (simp add: items_decreaseQuantity map_productId_updateFound split: option.splits)
qed

theorem other_lines_unchanged_witness:
  "items (increaseQuantity penId (cartOf [inkLine 2, penLine 1] 900 3)) = [inkLine 2, penLine 2] \<and>
   filter (\<lambda>item. productId item \<noteq> penId)
     (items (increaseQuantity penId (cartOf [inkLine 2, penLine 1] 900 3))) = [inkLine 2] \<and>
   filter (\<lambda>item. productId item \<noteq> penId)
     (items (updateQuantity penId 7 (cartOf [inkLine 2, penLine 1] 900 3))) = [inkLine 2] \<and>
   map productId (items (updateQuantity penId 7 (cartOf [inkLine 2, penLine 1] 900 3))) =
     [inkId, penId] \<and>
   filter (\<lambda>item. productId item \<noteq> penId)
     (items (addProduct pen (cartOf [inkLine 2, penLine 1] 900 3))) = [inkLine 2] \<and>
   map productId (items (addProduct pen (cartOf [inkLine 2, penLine 1] 900 3))) = [inkId, penId]"
proof -
  have pos: "(0::real) < 7" by simp
  have has: "pd_productId pen \<in> productId ` set (items (cartOf [inkLine 2, penLine 1] 900 3))"
    by simp
  have "items (increaseQuantity penId (cartOf [inkLine 2, penLine 1] 900 3)) =
      [inkLine 2, penLine 2]"
    by (simp add: increaseQuantity_def findItem_def)
  with pos has other_lines_unchanged [of pen "cartOf [inkLine 2, penLine 1] 900 3" penId 7]
  show ?thesis by simp
qed

subsection \<open>The routes\<close>




text \<open>
  C9. For every user id the request carries (\<^verbatim>\<open>!userId\<close> is false: the id is there and
  not empty), the create route answers 409 (conflict) without success when the user has
  a cart, and leaves the collection as it is: the cart is not overwritten. When the
  user has no cart it creates an empty cart of the user, saves it and answers 201 with
  that cart.
\<close>

theorem createCartRoute_conflict_or_created:
  assumes "uid \<noteq> []"
  shows "(\<forall>c. getUserCart uid db = Some c \<longrightarrow>
            createCartRoute (Some uid) db =
              (\<lparr>status = 409, success = False, message = ''Cart already exists for this user'',
                cartData = Some c\<rparr>, db)) \<and>
         (getUserCart uid db = None \<longrightarrow>
            createCartRoute (Some uid) db =
              (\<lparr>status = 201, success = True, message = ''Cart created successfully'',
                cartData = Some (emptyCart uid)\<rparr>,
               db(uid \<mapsto> emptyCart uid)))"
  using assms
  by (simp add: createCartRoute_def getUserCart_def getOrCreateCart_absent)

theorem createCartRoute_conflict_or_created_witness:
  "userA \<noteq> [] \<and>
   getUserCart userA [userA \<mapsto> cartOf [penLine 1] 500 1] = Some (cartOf [penLine 1] 500 1) \<and>
   createCartRoute (Some userA) [userA \<mapsto> cartOf [penLine 1] 500 1] =
     (\<lparr>status = 409, success = False, message = ''Cart already exists for this user'',
       cartData = Some (cartOf [penLine 1] 500 1)\<rparr>,
      [userA \<mapsto> cartOf [penLine 1] 500 1]) \<and>
   getUserCart userA Map.empty = None \<and>
   createCartRoute (Some userA) Map.empty =
     (\<lparr>status = 201, success = True, message = ''Cart created successfully'',
       cartData = Some (emptyCart userA)\<rparr>,
      [userA \<mapsto> emptyCart userA])"
proof -
  have uid: "userA \<noteq> []" by simp
  have some: "getUserCart userA [userA \<mapsto> cartOf [penLine 1] 500 1] =
      Some (cartOf [penLine 1] 500 1)"
    by (simp add: getUserCart_def findOne_def)
  have none: "getUserCart userA Map.empty = None"
    by (simp add: getUserCart_def findOne_def)
  from some createCartRoute_conflict_or_created [OF uid, of "[userA \<mapsto> cartOf [penLine 1] 500 1]"]
  have conflict: "createCartRoute (Some userA) [userA \<mapsto> cartOf [penLine 1] 500 1] =
     (\<lparr>status = 409, success = False, message = ''Cart already exists for this user'',
       cartData = Some (cartOf [penLine 1] 500 1)\<rparr>,
      [userA \<mapsto> cartOf [penLine 1] 500 1])"
    by simp
  from none createCartRoute_conflict_or_created [OF uid, of Map.empty]
  have "createCartRoute (Some userA) Map.empty =
     (\<lparr>status = 201, success = True, message = ''Cart created successfully'',
       cartData = Some (emptyCart userA)\<rparr>,
      [userA \<mapsto> emptyCart userA])"
    by simp
  with uid some none conflict show ?thesis by simp
qed

end
